theory Spec2Isabelle
  imports Complex_Main "HOL-Library.Multiset"
begin

section \<open>JavaScript values used by the application\<close>

text \<open>
  A JavaScript string is a sequence of UTF-16 code units; a code unit is modelled by its
  number. \<open>str\<close> turns a literal of the source into such a sequence.
\<close>

type_synonym jsstring = "nat list"

definition str :: "string \<Rightarrow> jsstring" where
  "str s = map of_char s"

text \<open>
  A JavaScript number is a double. The model keeps the not-a-number value, the two
  infinities and the finite values; a finite double is represented by the real number it
  denotes. The two zeros are identified: every operation of the application that receives a
  number compares it, and comparisons do not tell \<open>-0\<close> from \<open>+0\<close>.
\<close>

datatype number = NaN | PosInf | NegInf | Num real

definition isNaN :: "number \<Rightarrow> bool" where
  "isNaN x = (x = NaN)"

text \<open>The relational operators \<open>>=\<close> and \<open><\<close>: both are false when an operand is NaN.\<close>

fun js_ge :: "number \<Rightarrow> number \<Rightarrow> bool" where
  "js_ge NaN y = False"
| "js_ge x NaN = False"
| "js_ge PosInf y = True"
| "js_ge x NegInf = True"
| "js_ge (Num a) (Num b) = (b \<le> a)"
| "js_ge (Num a) PosInf = False"
| "js_ge NegInf y = False"

fun js_lt :: "number \<Rightarrow> number \<Rightarrow> bool" where
  "js_lt NaN y = False"
| "js_lt x NaN = False"
| "js_lt PosInf y = False"
| "js_lt x NegInf = False"
| "js_lt (Num a) (Num b) = (a < b)"
| "js_lt (Num a) PosInf = True"
| "js_lt NegInf y = True"

text \<open>
  Subtraction of doubles. The difference of two finite doubles is rounded by the machine;
  the model keeps the exact difference, which has the same sign and is zero in the same
  cases, and the only subtraction of the application (the sort comparator of the readings
  table) is read for its sign alone.
\<close>

fun js_sub :: "number \<Rightarrow> number \<Rightarrow> number" where
  "js_sub NaN y = NaN"
| "js_sub x NaN = NaN"
| "js_sub (Num a) (Num b) = Num (a - b)"
| "js_sub PosInf PosInf = NaN"
| "js_sub NegInf NegInf = NaN"
| "js_sub PosInf y = PosInf"
| "js_sub NegInf y = NegInf"
| "js_sub (Num a) PosInf = NegInf"
| "js_sub (Num a) NegInf = PosInf"

subsection \<open>Conversion of an integer to a double\<close>

fun bitlen :: "nat \<Rightarrow> nat" where
  "bitlen n = (if n = 0 then 0 else Suc (bitlen (n div 2)))"

declare bitlen.simps [simp del]

text \<open>
  Round to nearest, ties to even, with a significand of 53 bits: integers below \<open>2^53\<close>
  are exact, a larger one keeps its 53 leading bits.
\<close>

definition round_to_double :: "nat \<Rightarrow> nat" where
  "round_to_double n =
     (if n < 2 ^ 53 then n
      else let e = bitlen n - 53;
               q = n div 2 ^ e;
               r = n mod 2 ^ e;
               h = 2 ^ (e - 1)
           in (if h < r \<or> (r = h \<and> odd q) then q + 1 else q) * 2 ^ e)"

definition to_Number :: "int \<Rightarrow> number" where
  "to_Number i =
     (let m = round_to_double (nat \<bar>i\<bar>)
      in if 2 ^ 1024 \<le> m then (if i < 0 then NegInf else PosInf)
         else Num (of_int (if i < 0 then - int m else int m)))"

subsection \<open>The global function \<open>parseInt\<close> with one argument\<close>

text \<open>White space and line terminators, which \<open>parseInt\<close> skips at the start.\<close>

definition is_whitespace :: "nat \<Rightarrow> bool" where
  "is_whitespace c =
     (c = 9 \<or> c = 10 \<or> c = 11 \<or> c = 12 \<or> c = 13 \<or> c = 32 \<or> c = 160 \<or> c = 5760
      \<or> (8192 \<le> c \<and> c \<le> 8202) \<or> c = 8232 \<or> c = 8233 \<or> c = 8239 \<or> c = 8287
      \<or> c = 12288 \<or> c = 65279)"

definition digit_value :: "nat \<Rightarrow> nat option" where
  "digit_value c =
     (if 48 \<le> c \<and> c \<le> 57 then Some (c - 48)
      else if 97 \<le> c \<and> c \<le> 122 then Some (c - 87)
      else if 65 \<le> c \<and> c \<le> 90 then Some (c - 55)
      else None)"

definition radix_digit :: "nat \<Rightarrow> nat \<Rightarrow> nat option" where
  "radix_digit R c =
     (case digit_value c of
        None \<Rightarrow> None
      | Some d \<Rightarrow> if d < R then Some d else None)"

text \<open>The digits of the longest prefix made of radix-\<open>R\<close> digits.\<close>

fun leading_digits :: "nat \<Rightarrow> jsstring \<Rightarrow> nat list" where
  "leading_digits R [] = []"
| "leading_digits R (c # cs) =
     (case radix_digit R c of
        None \<Rightarrow> []
      | Some d \<Rightarrow> d # leading_digits R cs)"

definition digits_value :: "nat \<Rightarrow> nat list \<Rightarrow> nat" where
  "digits_value R ds = foldl (\<lambda>acc d. acc * R + d) 0 ds"

text \<open>
  \<open>parseInt(s)\<close>: skip leading white space, read a sign, read the prefix \<open>0x\<close> or
  \<open>0X\<close> (radix 16, otherwise radix 10), take the longest prefix of digits, and return its
  value as a double, or NaN when there is no digit. Whatever follows the digits is ignored.
\<close>

definition parseInt :: "jsstring \<Rightarrow> number" where
  "parseInt s =
     (let S = dropWhile is_whitespace s;
          sign = (case S of c # cs \<Rightarrow> if c = 45 then - 1 else 1 | [] \<Rightarrow> (1::int));
          S1 = (case S of c # cs \<Rightarrow> if c = 45 \<or> c = 43 then cs else S | [] \<Rightarrow> S);
          hex = (case S1 of a # b # cs \<Rightarrow> a = 48 \<and> (b = 120 \<or> b = 88) | _ \<Rightarrow> False);
          R = (if hex then 16 else 10);
          S2 = (if hex then drop 2 S1 else S1);
          Z = leading_digits R S2
      in if Z = [] then NaN else to_Number (sign * int (digits_value R Z)))"

section \<open>Reading validation: \<open>formSchema\<close> of the reading entry form\<close>

record form_values =
  date :: jsstring
  previous :: jsstring
  current :: jsstring

datatype form_field = Date | Previous | Current

text \<open>
  An issue of the validation library: the path of the value it is about and a message.
  The empty path is the form as a whole.
\<close>

type_synonym issue = "form_field list \<times> string"

text \<open>The regular expression \<open>/^\d{4}-\d{2}-\d{2}$/\<close>, as a matcher that consumes the input.\<close>

fun match_digits :: "nat \<Rightarrow> jsstring \<Rightarrow> jsstring option" where
  "match_digits 0 s = Some s"
| "match_digits (Suc n) [] = None"
| "match_digits (Suc n) (c # cs) =
     (if 48 \<le> c \<and> c \<le> 57 then match_digits n cs else None)"

fun match_char :: "nat \<Rightarrow> jsstring \<Rightarrow> jsstring option" where
  "match_char k [] = None"
| "match_char k (c # cs) = (if c = k then Some cs else None)"

definition date_regex :: "jsstring \<Rightarrow> bool" where
  "date_regex s =
     (Option.bind (Option.bind (Option.bind (Option.bind
        (match_digits 4 s) (match_char 45)) (match_digits 2)) (match_char 45)) (match_digits 2)
      = Some [])"

text \<open>
  The three field schemas. A string check (\<open>regex\<close>, \<open>min\<close>) that fails records its
  issue and lets the following refinement run, so a field can carry two issues.
\<close>

definition date_schema :: "jsstring \<Rightarrow> issue list" where
  "date_schema v = (if date_regex v then [] else [([Date], ''Date must be YYYY-MM-DD'')])"

definition previous_schema :: "jsstring \<Rightarrow> issue list" where
  "previous_schema v =
     (if 1 \<le> length v then [] else [([Previous], ''Previous reading is required'')]) @
     (if \<not> isNaN (parseInt v) \<and> js_ge (parseInt v) (Num 0) then []
      else [([Previous], ''Previous reading must be a positive integer'')])"

definition current_schema :: "jsstring \<Rightarrow> issue list" where
  "current_schema v =
     (if 1 \<le> length v then [] else [([Current], ''Current reading is required'')]) @
     (if \<not> isNaN (parseInt v) \<and> js_ge (parseInt v) (Num 0) then []
      else [([Current], ''Current reading must be a positive integer'')])"

text \<open>The refinement of the whole object; its issue is given the path \<open>current\<close>.\<close>

definition cross_field :: "form_values \<Rightarrow> issue list" where
  "cross_field d =
     (let previous = parseInt (previous d);
          current = parseInt (current d)
      in if js_ge current previous then []
         else [([Current],
                ''Current reading must be greater than or equal to previous reading'')])"

definition formSchema_issues :: "form_values \<Rightarrow> issue list" where
  "formSchema_issues d =
     date_schema (date d) @ previous_schema (previous d) @ current_schema (current d) @
     cross_field d"

text \<open>Parsing with the schema: the values themselves, or the issues.\<close>

definition formSchema :: "form_values \<Rightarrow> issue list + form_values" where
  "formSchema d = (if formSchema_issues d = [] then Inr d else Inl (formSchema_issues d))"

text \<open>
  The form resolver shows under a field the first issue whose path is that field, and as
  an error of the form the first issue with the empty path.
\<close>

definition error_at :: "form_field list \<Rightarrow> issue list \<Rightarrow> string option" where
  "error_at p is = map_option snd (find (\<lambda>i. fst i = p) is)"

definition form_errors :: "form_values \<Rightarrow> form_field list \<Rightarrow> string option" where
  "form_errors d p = error_at p (formSchema_issues d)"

section \<open>Readings table\<close>

text \<open>
  The type \<open>Reading\<close>. Its fields carry the prefix \<open>reading_\<close>, and the field \<open>id\<close> of
  a profile below is \<open>profile_id\<close>: two records cannot share a field name, and \<open>id\<close> is
  the identity function.
\<close>

record reading =
  reading_id :: int
  reading_profile_id :: int
  reading_date :: jsstring
  reading_previous :: number
  reading_current :: number
  reading_consumption :: number

subsection \<open>Time value of a date string\<close>

text \<open>
  \<open>new Date(s).getTime()\<close> is computed by the JavaScript engine. ECMAScript fixes it
  for the date-time string format and leaves every other string to the engine, so the
  readings table below takes the function as a parameter. \<open>iso_date_time\<close> is what
  the language fixes for a calendar date in the date-only form \<open>YYYY-MM-DD\<close>, the form
  the reading entry form submits: midnight UTC of that day in milliseconds since
  1970-01-01. On any other string it answers NaN, as an engine does that accepts nothing
  but the format.
\<close>

definition is_leap_year :: "int \<Rightarrow> bool" where
  "is_leap_year y = (y mod 4 = 0 \<and> (y mod 100 \<noteq> 0 \<or> y mod 400 = 0))"

definition days_in_month :: "int \<Rightarrow> nat \<Rightarrow> int" where
  "days_in_month y m =
     (if m = 2 then (if is_leap_year y then 29 else 28)
      else if m = 4 \<or> m = 6 \<or> m = 9 \<or> m = 11 then 30
      else 31)"

definition day_from_year :: "int \<Rightarrow> int" where
  "day_from_year y =
     365 * (y - 1970) + (y - 1969) div 4 - (y - 1901) div 100 + (y - 1601) div 400"

definition decimal :: "jsstring \<Rightarrow> nat" where
  "decimal s = digits_value 10 (leading_digits 10 s)"

definition iso_date_time :: "jsstring \<Rightarrow> number" where
  "iso_date_time s =
     (if date_regex s then
        let y = int (decimal (take 4 s));
            m = decimal (take 2 (drop 5 s));
            d = int (decimal (drop 8 s))
        in if 1 \<le> m \<and> m \<le> 12 \<and> 1 \<le> d \<and> d \<le> days_in_month y m
           then Num (of_int (86400000 *
                  (day_from_year y + sum_list (map (days_in_month y) [1..<m]) + d - 1)))
           else NaN
      else NaN)"

subsection \<open>\<open>Array.prototype.sort\<close> with a comparator\<close>

text \<open>
  The result of the comparator is read through \<open>SortCompare\<close>, which takes NaN as zero.
  For a consistent comparator the language requires the sorted order with equal elements
  kept in their original order, which is one list; an insertion sort that moves each
  element left past the elements that compare greater computes it. For an inconsistent
  comparator the engines may differ. Where every comparison the sort makes is a tie, as
  when an element the comparator cannot compare stands between two others, the insertion
  sort leaves the elements where they are, and so does the search for an ordered run with
  which the sort of V8 begins.
\<close>

definition SortCompare :: "('a \<Rightarrow> 'a \<Rightarrow> number) \<Rightarrow> 'a \<Rightarrow> 'a \<Rightarrow> number" where
  "SortCompare comparefn x y = (let v = comparefn x y in if isNaN v then Num 0 else v)"

text \<open>The sorted part is kept in reverse, its last element first.\<close>

fun sort_insert :: "('a \<Rightarrow> 'a \<Rightarrow> number) \<Rightarrow> 'a \<Rightarrow> 'a list \<Rightarrow> 'a list" where
  "sort_insert comparefn x [] = [x]"
| "sort_insert comparefn x (y # ys) =
     (if js_lt (Num 0) (SortCompare comparefn y x) then y # sort_insert comparefn x ys
      else x # y # ys)"

definition Array_sort :: "('a \<Rightarrow> 'a \<Rightarrow> number) \<Rightarrow> 'a list \<Rightarrow> 'a list" where
  "Array_sort comparefn xs = rev (foldl (\<lambda>acc x. sort_insert comparefn x acc) [] xs)"

subsection \<open>The component\<close>

text \<open>
  The comparator of the table:
  \<open>(a, b) => new Date(b.date).getTime() - new Date(a.date).getTime()\<close>.
\<close>

definition by_date_descending ::
  "(jsstring \<Rightarrow> number) \<Rightarrow> reading \<Rightarrow> reading \<Rightarrow> number" where
  "by_date_descending getTime a b =
     js_sub (getTime (reading_date b)) (getTime (reading_date a))"

text \<open>The four emphasis classes of the consumption cell, named as the specification names them.\<close>

datatype band = Highest | High | Medium | Normal

definition severity :: "number \<Rightarrow> band" where
  "severity consumption =
     (if js_ge consumption (Num 200) then Highest
      else if js_ge consumption (Num 150) then High
      else if js_ge consumption (Num 100) then Medium
      else Normal)"

fun className :: "band \<Rightarrow> string" where
  "className Highest = ''text-red-600 dark:text-red-400''"
| "className High = ''text-orange-600 dark:text-orange-400''"
| "className Medium = ''text-yellow-900 dark:text-yellow-400''"
| "className Normal = ''text-green-600 dark:text-green-400''"

text \<open>
  A row of the table: its key, the reading whose fields fill the cells, and the class of
  the consumption cell. The text of the date cell depends on the locale and is left out.
\<close>

record row =
  row_key :: int
  row_reading :: reading
  row_className :: string

definition render_row :: "reading \<Rightarrow> row" where
  "render_row r =
     \<lparr>row_key = reading_id r, row_reading = r,
      row_className = className (severity (reading_consumption r))\<rparr>"

datatype view = NoReadings | Table "row list"

text \<open>
  The component receives the array of the caller by reference, and \<open>sort\<close> sorts an array
  in place and returns it. The store maps a reference to the contents of its array; the
  component returns what it renders and the store it leaves.
\<close>

type_synonym ref = nat
type_synonym store = "ref \<Rightarrow> reading list"

definition ReadingsTable :: "(jsstring \<Rightarrow> number) \<Rightarrow> ref \<Rightarrow> store \<Rightarrow> view \<times> store" where
  "ReadingsTable getTime readings h =
     (if length (h readings) = 0 then (NoReadings, h)
      else let h' = h(readings := Array_sort (by_date_descending getTime) (h readings))
           in (Table (map render_row (h' readings)), h'))"

definition rendered_readings :: "view \<Rightarrow> reading list" where
  "rendered_readings v = (case v of NoReadings \<Rightarrow> [] | Table rows \<Rightarrow> map row_reading rows)"

section \<open>Calls to the backend\<close>

text \<open>
  A value caught by \<open>catch\<close> is an \<open>Error\<close> with its message or something else; the
  handlers of both pages turn it into the text of the error banner in the same way.
\<close>

datatype thrown = Error jsstring | NotAnError

definition caught_message :: "thrown \<Rightarrow> jsstring" where
  "caught_message err =
     (case err of Error message \<Rightarrow> message | NotAnError \<Rightarrow> str ''An unexpected error occurred'')"

text \<open>What \<open>await\<close> gives: the value of a fulfilled promise, or the reason of a rejected one.\<close>

datatype 'a awaited = Resolved 'a | Rejected thrown

text \<open>
  A response of \<open>fetch\<close>: the HTTP status and what \<open>response.json()\<close> gives when it is
  awaited. \<open>response.ok\<close> is true for the statuses 200 to 299.
\<close>

datatype 'b response = Response (status: nat) (json: "'b awaited")

definition ok :: "'b response \<Rightarrow> bool" where
  "ok r = (200 \<le> status r \<and> status r \<le> 299)"

text \<open>
  The body of an error response: a JSON object with an optional string \<open>detail\<close>.
  \<open>errorData.detail || fallback\<close> takes the fallback when the detail is absent or empty.
\<close>

datatype error_json = Detail jsstring | NoDetail

definition detail_or :: "error_json \<Rightarrow> jsstring \<Rightarrow> jsstring" where
  "detail_or errorData fallback =
     (case errorData of
        Detail d \<Rightarrow> if d = [] then fallback else d
      | NoDetail \<Rightarrow> fallback)"

text \<open>A status in a template literal: its decimal digits.\<close>

function show_nat :: "nat \<Rightarrow> jsstring" where
  "show_nat n = (if n < 10 then [48 + n] else show_nat (n div 10) @ [48 + n mod 10])"
  by pat_completeness auto
termination
  by (relation "measure (\<lambda>n. n)") auto

declare show_nat.simps [simp del]

text \<open>\<open>!token\<close>: the token is null or the empty string.\<close>

definition missing :: "jsstring option \<Rightarrow> bool" where
  "missing token = (token = None \<or> token = Some [])"

text \<open>
  The JSON values that are not arrays, and the body of a successful response to the
  request for the profiles: an array, whose elements the page takes as profiles without
  looking at them, or a value that is not an array.
\<close>

datatype json =
    JNull | JBool bool | JNumber number | JString jsstring
  | JArray "json list" | JObject "(jsstring \<times> json) list"

datatype not_array =
    Null | Boolean bool | Number number | String jsstring | Object "(jsstring \<times> json) list"

record profile =
  profile_id :: int
  user_id :: jsstring
  tenant_name :: jsstring
  meter_number :: jsstring
  last_consumption :: "number option"
  last_reading_date :: "jsstring option"
  initial_reading :: "number option"

datatype profiles_json = IsArray "profile list" | NotArray not_array

section \<open>Dashboard\<close>

record page =
  isLoading :: bool
  error :: "jsstring option"
  authChecked :: bool

record dashboard = page +
  profiles :: "profile list"

subsection \<open>\<open>fetchProfiles\<close>\<close>

text \<open>The body of the \<open>try\<close> block: the value it throws, or the list given to \<open>setProfiles\<close>.\<close>

definition fetchProfiles_try ::
  "jsstring option awaited \<Rightarrow> profiles_json response awaited \<Rightarrow> thrown + profile list" where
  "fetchProfiles_try getToken fetch =
     (case getToken of
        Rejected e \<Rightarrow> Inl e
      | Resolved token \<Rightarrow>
          if missing token then Inl (Error (str ''Authentication token not found''))
          else case fetch of
            Rejected e \<Rightarrow> Inl e
          | Resolved response \<Rightarrow>
              if \<not> ok response then
                Inl (Error (if status response = 401
                            then str ''Session expired, please sign in again''
                            else str ''Failed to fetch profiles''))
              else case json response of
                Rejected e \<Rightarrow> Inl e
              | Resolved data \<Rightarrow>
                  Inr (case data of IsArray ps \<Rightarrow> ps | NotArray v \<Rightarrow> []))"

text \<open>
  The effect: the state of the page after it and the routes pushed to the router.
  \<open>isSignedIn\<close> is undefined (\<open>None\<close>) until the authentication state is known.
\<close>

definition fetchProfiles ::
  "bool option \<Rightarrow> jsstring option awaited \<Rightarrow> profiles_json response awaited \<Rightarrow>
   dashboard \<Rightarrow> dashboard \<times> jsstring list" where
  "fetchProfiles isSignedIn getToken fetch st =
     (case isSignedIn of
        None \<Rightarrow> (st, [])
      | Some signedIn \<Rightarrow>
          let st1 = st\<lparr>authChecked := True\<rparr>
          in if \<not> signedIn then
               (st1\<lparr>error := Some (str ''Please sign in to view your dashboard''),
                    isLoading := False\<rparr>,
                [str ''/sign-in''])
             else
               ((case fetchProfiles_try getToken fetch of
                   Inr ps \<Rightarrow> st1\<lparr>profiles := ps, error := None, isLoading := False\<rparr>
                 | Inl err \<Rightarrow> st1\<lparr>error := Some (caught_message err), isLoading := False\<rparr>),
                []))"

subsection \<open>\<open>handleDeleteProfile\<close>\<close>

text \<open>
  The handler in three parts: what it does before its first \<open>await\<close>, the outcome of the
  \<open>try\<close> block once the token and the response have arrived, and what it does to the
  state of that moment afterwards. Between the first and the last part it does not touch
  the state.
\<close>

definition handleDeleteProfile_start :: "dashboard \<Rightarrow> dashboard" where
  "handleDeleteProfile_start st = st\<lparr>isLoading := True, error := None\<rparr>"

definition handleDeleteProfile_try ::
  "int \<Rightarrow> jsstring option awaited \<Rightarrow> error_json response awaited \<Rightarrow> thrown + unit" where
  "handleDeleteProfile_try profileId getToken fetch =
     (case getToken of
        Rejected e \<Rightarrow> Inl e
      | Resolved token \<Rightarrow>
          if missing token then Inl (Error (str ''Authentication token not found''))
          else case fetch of
            Rejected e \<Rightarrow> Inl e
          | Resolved response \<Rightarrow>
              if \<not> ok response then
                (case json response of
                   Rejected e \<Rightarrow> Inl e
                 | Resolved errorData \<Rightarrow>
                     Inl (Error (detail_or errorData
                       (str ''Failed to delete profile: '' @ show_nat (status response)))))
              else Inr ())"

definition handleDeleteProfile_finish :: "int \<Rightarrow> thrown + unit \<Rightarrow> dashboard \<Rightarrow> dashboard" where
  "handleDeleteProfile_finish profileId outcome st =
     (case outcome of
        Inr u \<Rightarrow>
          st\<lparr>profiles := filter (\<lambda>profile. profile_id profile \<noteq> profileId) (profiles st),
             error := None, isLoading := False\<rparr>
      | Inl err \<Rightarrow> st\<lparr>error := Some (caught_message err), isLoading := False\<rparr>)"

definition handleDeleteProfile ::
  "int \<Rightarrow> jsstring option awaited \<Rightarrow> error_json response awaited \<Rightarrow> dashboard \<Rightarrow> dashboard" where
  "handleDeleteProfile profileId getToken fetch st =
     handleDeleteProfile_finish profileId (handleDeleteProfile_try profileId getToken fetch)
       (handleDeleteProfile_start st)"

section \<open>Meter details page\<close>

record meter_details = page +
  readings :: "reading list"
  profile :: "profile option"

text \<open>\<open>!isSignedIn || !userId\<close>, with \<open>isSignedIn\<close> possibly undefined and \<open>userId\<close> possibly null.\<close>

definition signed_out :: "bool option \<Rightarrow> jsstring option \<Rightarrow> bool" where
  "signed_out isSignedIn userId = (isSignedIn \<noteq> Some True \<or> missing userId)"

subsection \<open>\<open>handleDeleteReading\<close>\<close>

definition handleDeleteReading_try ::
  "int \<Rightarrow> jsstring option awaited \<Rightarrow> error_json response awaited \<Rightarrow> thrown + unit" where
  "handleDeleteReading_try readingId getToken fetch =
     (case getToken of
        Rejected e \<Rightarrow> Inl e
      | Resolved token \<Rightarrow>
          if missing token then Inl (Error (str ''Authentication token not found''))
          else case fetch of
            Rejected e \<Rightarrow> Inl e
          | Resolved response \<Rightarrow>
              if \<not> ok response then
                (case json response of
                   Rejected e \<Rightarrow> Inl e
                 | Resolved errorData \<Rightarrow>
                     Inl (Error (detail_or errorData
                       (str ''Failed to delete reading: '' @ show_nat (status response)))))
              else Inr ())"

definition handleDeleteReading_finish ::
  "int \<Rightarrow> thrown + unit \<Rightarrow> meter_details \<Rightarrow> meter_details" where
  "handleDeleteReading_finish readingId outcome st =
     (case outcome of
        Inr u \<Rightarrow>
          st\<lparr>readings := filter (\<lambda>reading. reading_id reading \<noteq> readingId) (readings st),
             error := None\<rparr>
      | Inl err \<Rightarrow> st\<lparr>error := Some (caught_message err)\<rparr>)"

text \<open>
  Before its first \<open>await\<close> the handler only checks the session; when the check fails it
  sets the error and makes no request.
\<close>

definition handleDeleteReading_start ::
  "bool option \<Rightarrow> jsstring option \<Rightarrow> meter_details \<Rightarrow> meter_details" where
  "handleDeleteReading_start isSignedIn userId st =
     (if signed_out isSignedIn userId
      then st\<lparr>error := Some (str ''Please sign in to delete reading'')\<rparr>
      else st)"

definition handleDeleteReading ::
  "bool option \<Rightarrow> jsstring option \<Rightarrow> int \<Rightarrow> jsstring option awaited \<Rightarrow>
   error_json response awaited \<Rightarrow> meter_details \<Rightarrow> meter_details" where
  "handleDeleteReading isSignedIn userId readingId getToken fetch st =
     (if signed_out isSignedIn userId then handleDeleteReading_start isSignedIn userId st
      else handleDeleteReading_finish readingId
             (handleDeleteReading_try readingId getToken fetch)
             (handleDeleteReading_start isSignedIn userId st))"

subsection \<open>\<open>handleUpdateInitialReading\<close>\<close>

text \<open>
  What \<open>JSON.stringify\<close> writes for a number in the body of a request: the number, or
  \<open>null\<close> for NaN and the infinities.
\<close>

datatype json_text = Text_null | Text_number real

definition JSON_stringify :: "number \<Rightarrow> json_text" where
  "JSON_stringify n = (case n of Num x \<Rightarrow> Text_number x | _ \<Rightarrow> Text_null)"

text \<open>The request of the handler, with the value of \<open>initial_reading\<close> in its body.\<close>

datatype request = PATCH_initial_reading json_text

definition handleUpdateInitialReading_try ::
  "jsstring option awaited \<Rightarrow> profile response awaited \<Rightarrow> error_json awaited \<Rightarrow>
   thrown + profile" where
  "handleUpdateInitialReading_try getToken fetch errorBody =
     (case getToken of
        Rejected e \<Rightarrow> Inl e
      | Resolved token \<Rightarrow>
          if missing token then Inl (Error (str ''Authentication token not found''))
          else case fetch of
            Rejected e \<Rightarrow> Inl e
          | Resolved response \<Rightarrow>
              if \<not> ok response then
                (case errorBody of
                   Rejected e \<Rightarrow> Inl e
                 | Resolved errorData \<Rightarrow>
                     Inl (Error (detail_or errorData
                       (str ''Failed to update initial reading: '' @
                        show_nat (status response)))))
              else case json response of
                Rejected e \<Rightarrow> Inl e
              | Resolved updatedProfile \<Rightarrow> Inr updatedProfile)"

text \<open>
  The state after the handler, and the requests it has sent: none when there is no
  profile or no token, otherwise the one whose body is
  \<open>JSON.stringify({ initial_reading: initialReading })\<close>. The body of
  the response is read as the error data when the status is not a success and as the
  updated profile otherwise, so the two readings of it are two arguments.
\<close>

definition handleUpdateInitialReading ::
  "number \<Rightarrow> jsstring option awaited \<Rightarrow> profile response awaited \<Rightarrow> error_json awaited \<Rightarrow>
   meter_details \<Rightarrow> meter_details \<times> request list" where
  "handleUpdateInitialReading initialReading getToken fetch errorBody st =
     (if profile st = None then (st, [])
      else
        ((case handleUpdateInitialReading_try getToken fetch errorBody of
            Inr updatedProfile \<Rightarrow> st\<lparr>profile := Some updatedProfile, error := None\<rparr>
          | Inl err \<Rightarrow> st\<lparr>error := Some (caught_message err)\<rparr>),
         (case getToken of
            Rejected e \<Rightarrow> []
          | Resolved token \<Rightarrow>
              if missing token then []
              else [PATCH_initial_reading (JSON_stringify initialReading)])))"

section \<open>Profile header\<close>

text \<open>
  \<open>handleSaveInitialReading\<close> on the text of the input: the calls it makes to
  \<open>onUpdateInitialReading\<close>, none or one, with their argument. It does nothing else.
\<close>

definition handleSaveInitialReading :: "jsstring \<Rightarrow> number list" where
  "handleSaveInitialReading initialReadingInput =
     (if initialReadingInput = [] \<or> isNaN (parseInt initialReadingInput)
         \<or> js_lt (parseInt initialReadingInput) (Num 0)
      then []
      else [parseInt initialReadingInput])"

text \<open>
  The button of the header on the meter details page, which passes
  \<open>handleUpdateInitialReading\<close> as \<open>onUpdateInitialReading\<close>.
\<close>

definition save_initial_reading ::
  "jsstring \<Rightarrow> jsstring option awaited \<Rightarrow> profile response awaited \<Rightarrow> error_json awaited \<Rightarrow>
   meter_details \<Rightarrow> meter_details \<times> request list" where
  "save_initial_reading initialReadingInput getToken fetch errorBody st =
     (case handleSaveInitialReading initialReadingInput of
        [] \<Rightarrow> (st, [])
      | initialReading # others \<Rightarrow>
          handleUpdateInitialReading initialReading getToken fetch errorBody st)"

section \<open>Example data\<close>

definition reading_jan :: reading where
  "reading_jan =
     \<lparr>reading_id = 1, reading_profile_id = 7, reading_date = str ''2025-01-01'',
      reading_previous = Num 1000, reading_current = Num 1120, reading_consumption = Num 120\<rparr>"

definition reading_mar :: reading where
  "reading_mar =
     \<lparr>reading_id = 2, reading_profile_id = 7, reading_date = str ''2025-03-01'',
      reading_previous = Num 1300, reading_current = Num 1500, reading_consumption = Num 200\<rparr>"

definition reading_feb :: reading where
  "reading_feb =
     \<lparr>reading_id = 3, reading_profile_id = 7, reading_date = str ''2025-02-01'',
      reading_previous = Num 1120, reading_current = Num 1300, reading_consumption = Num 180\<rparr>"

text \<open>A reading whose date has the shape the form accepts and names no day of the calendar.\<close>

definition reading_bad :: reading where
  "reading_bad =
     \<lparr>reading_id = 4, reading_profile_id = 7, reading_date = str ''2025-13-01'',
      reading_previous = Num 1500, reading_current = Num 1600, reading_consumption = Num 100\<rparr>"

definition profile_example :: "int \<Rightarrow> profile" where
  "profile_example i =
     \<lparr>profile_id = i, user_id = str ''user_1'', tenant_name = str ''tenant'',
      meter_number = str ''M-100'', last_consumption = None, last_reading_date = None,
      initial_reading = None\<rparr>"

definition dashboard_example :: dashboard where
  "dashboard_example =
     \<lparr>isLoading = False, error = None, authChecked = True,
      profiles = [profile_example 7, profile_example 8]\<rparr>"

definition meter_example :: meter_details where
  "meter_example =
     \<lparr>isLoading = False, error = None, authChecked = True,
      readings = [reading_jan, reading_mar, reading_feb],
      profile = Some (profile_example 7)\<rparr>"

section \<open>Evaluation of the parsers on literals\<close>

lemmas parseInt_eval = parseInt_def str_def is_whitespace_def radix_digit_def digit_value_def
  digits_value_def to_Number_def round_to_double_def Let_def

lemma parseInt_Nil: "parseInt [] = NaN"
  by (simp add: parseInt_def)

lemma parseInt_Num_length: "parseInt v = Num p \<Longrightarrow> 1 \<le> length v"
  by (cases v) (simp_all add: parseInt_Nil)

lemma field_accepts:
  assumes "parseInt v = Num p" and "0 \<le> p"
  shows "previous_schema v = []" and "current_schema v = []"
  using assms parseInt_Num_length [OF assms(1)]
  by (simp_all add: previous_schema_def current_schema_def isNaN_def)

text \<open>
  A numeral at or above \<open>2^1024\<close> is read as infinity: rounding never goes below the
  power of two under the number.
\<close>

lemma bitlen_bounds: "0 < n \<Longrightarrow> 2 ^ (bitlen n - 1) \<le> n \<and> n < 2 ^ bitlen n"
proof (induction n rule: bitlen.induct)
  case (1 n)
  show ?case
  proof (cases "n div 2 = 0")
    case True
    then have "n = 1" using 1(2) by presburger
    then show ?thesis by (simp add: bitlen.simps)
  next
    case False
    define m where "m = n div 2"
    have m: "0 < m" using False by (simp add: m_def)
    have IH: "2 ^ (bitlen m - 1) \<le> m \<and> m < 2 ^ bitlen m"
      using 1(1) 1(2) m by (simp add: m_def)
    have b: "bitlen n = Suc (bitlen m)"
      using 1(2) by (subst bitlen.simps) (simp add: m_def)
    have pos: "0 < bitlen m" using m by (subst bitlen.simps) simp
    then have "(2::nat) ^ bitlen m = 2 * 2 ^ (bitlen m - 1)"
      by (cases "bitlen m") simp_all
    moreover have "2 * m \<le> n" and "n < 2 * (m + 1)" by (simp_all add: m_def)
    ultimately show ?thesis using IH by (simp add: b)
  qed
qed

lemma div_mult_power_lower:
  assumes "2 ^ c \<le> (n::nat)" and "e \<le> c"
  shows "2 ^ c \<le> n div 2 ^ e * 2 ^ e"
proof -
  have split: "(2::nat) ^ c = 2 ^ (c - e) * 2 ^ e"
    using assms(2) by (simp flip: power_add)
  then have "2 ^ (c - e) * 2 ^ e \<le> n" using assms(1) by simp
  then have "2 ^ (c - e) \<le> n div 2 ^ e"
    by (simp add: less_eq_div_iff_mult_less_eq)
  then have "2 ^ (c - e) * 2 ^ e \<le> n div 2 ^ e * 2 ^ e"
    by (rule mult_le_mono1)
  then show ?thesis using split by simp
qed

lemma round_to_double_lower:
  assumes "2 ^ K \<le> n" and "53 \<le> K"
  shows "2 ^ K \<le> round_to_double n"
proof -
  define b where "b = bitlen n"
  define e where "e = b - 53"
  define q where "q = n div 2 ^ e"
  have pos: "0 < n" using assms(1) by (metis less_le_trans zero_less_numeral zero_less_power)
  have lo: "2 ^ (b - 1) \<le> n" and hi: "n < 2 ^ b"
    using bitlen_bounds [OF pos] by (simp_all add: b_def)
  have "(2::nat) ^ K < 2 ^ b" using assms(1) hi by (rule le_less_trans)
  then have big: "K < b" by simp
  have "2 ^ (b - 1) \<le> q * 2 ^ e"
    unfolding q_def by (rule div_mult_power_lower [OF lo]) (simp add: e_def)
  moreover have "(2::nat) ^ K \<le> 2 ^ (b - 1)"
    using big by (intro power_increasing) simp_all
  ultimately have q: "2 ^ K \<le> q * 2 ^ e" by (rule order_trans [rotated])
  have "(2::nat) ^ 53 \<le> 2 ^ K" using assms(2) by (intro power_increasing) simp_all
  then have "\<not> n < 2 ^ 53" using assms(1) by linarith
  then have r: "round_to_double n =
      (if 2 ^ (e - 1) < n mod 2 ^ e \<or> (n mod 2 ^ e = 2 ^ (e - 1) \<and> odd q) then q + 1 else q) * 2 ^ e"
    by (simp add: round_to_double_def Let_def b_def e_def q_def)
  have "q * 2 ^ e \<le> (q + 1) * 2 ^ e" by (rule mult_le_mono1) simp
  then have "q * 2 ^ e \<le> round_to_double n" unfolding r by (simp del: power_numeral)
  then show ?thesis using q by (rule order_trans [rotated])
qed

lemma leading_digits_nines: "leading_digits 10 (replicate n 57) = replicate n 9"
  by (induction n) (simp_all add: radix_digit_def digit_value_def)

lemma digits_value_nines: "digits_value 10 (replicate n 9) = 10 ^ n - 1"
proof -
  have "foldl (\<lambda>acc d. acc * 10 + d) a (replicate n 9) = (a + 1) * 10 ^ n - (1::nat)" for a
  proof (induction n arbitrary: a)
    case 0
    show ?case by simp
  next
    case (Suc n)
    have "foldl (\<lambda>acc d. acc * 10 + d) a (replicate (Suc n) 9) = (a * 10 + 9 + 1) * 10 ^ n - 1"
      using Suc [of "a * 10 + 9"] by simp
    also have "\<dots> = (a + 1) * 10 ^ Suc n - 1" by (simp add: algebra_simps)
    finally show ?case .
  qed
  from this [of 0] show ?thesis by (simp add: digits_value_def)
qed

lemma parseInt_nines:
  assumes "0 < n"
  shows "parseInt (replicate n 57) = to_Number (int (10 ^ n - 1))"
proof -
  obtain k where n: "n = Suc k" using assms by (cases n) simp_all
  have ws: "dropWhile is_whitespace (replicate n 57) = replicate n 57"
    by (simp add: n is_whitespace_def)
  have nil: "replicate n 9 \<noteq> ([] :: nat list)" by (simp add: n)
  have nohex: "\<not> (case replicate n (57::nat) of a # b # cs \<Rightarrow> a = 48 \<and> (b = 120 \<or> b = 88) | _ \<Rightarrow> False)"
    by (cases k) (simp_all add: n)
  show ?thesis
    unfolding parseInt_def ws Let_def
    using nohex nil
    by (simp add: n leading_digits_nines [of "Suc k", simplified] digits_value_nines [of "Suc k", simplified])
qed

lemma parseInt_310_nines: "parseInt (replicate 310 57) = PosInf"
proof -
  have "(2::nat) ^ 1024 \<le> 10 ^ 310 - 1" by simp
  then have "2 ^ 1024 \<le> round_to_double (10 ^ 310 - 1)"
    by (rule round_to_double_lower) simp
  then have "to_Number (int (10 ^ 310 - 1)) = PosInf"
    by (simp add: to_Number_def Let_def del: of_nat_diff of_nat_power)
  then show ?thesis using parseInt_nines [of 310] by simp
qed

lemmas date_eval = iso_date_time_def date_regex_def decimal_def days_in_month_def
  is_leap_year_def day_from_year_def radix_digit_def digit_value_def digits_value_def str_def Let_def

lemma time_jan: "iso_date_time (str ''2025-01-01'') = Num 1735689600000"
  by (simp add: date_eval eval_nat_numeral)

lemma time_feb: "iso_date_time (str ''2025-02-01'') = Num 1738368000000"
  by (simp add: date_eval eval_nat_numeral)

lemma time_mar: "iso_date_time (str ''2025-03-01'') = Num 1740787200000"
  by (simp add: date_eval eval_nat_numeral)

lemma time_bad: "iso_date_time (str ''2025-13-01'') = NaN"
  by (simp add: date_eval eval_nat_numeral)


section \<open>Properties of reading validation\<close>

text \<open>
  Claim C1. When both the previous and the current field parse to a non-negative
  integer, validation succeeds exactly when the date is well-formed and the current value
  is at least the previous one. With a well-formed date the result is the validated
  values when \<open>current >= previous\<close>, and otherwise the single issue of the cross-field
  rule, whose path is the field \<open>current\<close>. Whenever \<open>current < previous\<close> the resolver
  shows that message under the field \<open>current\<close>, and nothing under \<open>previous\<close> or as an
  error of the form as a whole.
\<close>

theorem reading_validation_cross_field:
  assumes "parseInt (previous d) = Num p" and "0 \<le> p"
    and "parseInt (current d) = Num c" and "0 \<le> c"
  shows "((\<exists>v. formSchema d = Inr v) \<longleftrightarrow> date_regex (date d) \<and> p \<le> c)
    \<and> (date_regex (date d) \<longrightarrow>
         formSchema d =
           (if p \<le> c then Inr d
            else Inl [([Current],
              ''Current reading must be greater than or equal to previous reading'')]))
    \<and> (c < p \<longrightarrow>
         form_errors d [Current] =
           Some ''Current reading must be greater than or equal to previous reading''
         \<and> form_errors d [Previous] = None
         \<and> form_errors d [] = None)"
proof -
  have fields: "previous_schema (previous d) = []" "current_schema (current d) = []"
    using assms by (simp_all add: field_accepts)
  have cross: "cross_field d =
      (if p \<le> c then []
       else [([Current],
         ''Current reading must be greater than or equal to previous reading'')])"
    using assms by (simp add: cross_field_def)
  have issues: "formSchema_issues d = date_schema (date d) @ cross_field d"
    by (simp add: formSchema_issues_def fields)
  show ?thesis
    by (simp add: formSchema_def form_errors_def error_at_def issues cross date_schema_def)
qed

theorem reading_validation_cross_field_witness:
  "form_errors \<lparr>date = str ''2025-01-01'', previous = str ''100'', current = str ''90''\<rparr> [Current]
     = Some ''Current reading must be greater than or equal to previous reading''
   \<and> formSchema \<lparr>date = str ''2025-01-01'', previous = str ''100'', current = str ''90''\<rparr>
     = Inl [([Current], ''Current reading must be greater than or equal to previous reading'')]
   \<and> formSchema \<lparr>date = str ''2025-01-01'', previous = str ''90'', current = str ''100''\<rparr>
     = Inr \<lparr>date = str ''2025-01-01'', previous = str ''90'', current = str ''100''\<rparr>"
proof -
  have p100: "parseInt (str ''100'') = Num 100" by (simp add: parseInt_eval)
  have p90: "parseInt (str ''90'') = Num 90" by (simp add: parseInt_eval)
  have d: "date_regex (str ''2025-01-01'')" by (simp add: date_regex_def str_def eval_nat_numeral)
  show ?thesis
    using reading_validation_cross_field
      [of "\<lparr>date = str ''2025-01-01'', previous = str ''100'', current = str ''90''\<rparr>" 100 90]
     reading_validation_cross_field
      [of "\<lparr>date = str ''2025-01-01'', previous = str ''90'', current = str ''100''\<rparr>" 90 100]
     p100 p90 d
    by simp
qed

text \<open>
  Claim C2. The claim requires a string that is not a non-negative integer to fail on
  its field. The refinement of the field reads the string with \<open>parseInt\<close>, which stops at
  the first character that is not a digit: the previous reading \<open>1.5\<close> is read as \<open>1\<close>,
  the field carries no issue although its message asks for an integer, and the form is
  accepted.
\<close>

theorem lenient_field_accepted:
  "formSchema \<lparr>date = str ''2025-01-01'', previous = str ''1.5'', current = str ''2''\<rparr>
     = Inr \<lparr>date = str ''2025-01-01'', previous = str ''1.5'', current = str ''2''\<rparr>
   \<and> parseInt (str ''1.5'') = Num 1
   \<and> form_errors \<lparr>date = str ''2025-01-01'', previous = str ''1.5'', current = str ''2''\<rparr> [Previous] = None"
proof -
  have a: "parseInt (str ''1.5'') = Num 1" by (simp add: parseInt_eval)
  have b: "parseInt (str ''2'') = Num 2" by (simp add: parseInt_eval)
  have d: "date_regex (str ''2025-01-01'')" by (simp add: date_regex_def str_def eval_nat_numeral)
  have l: "length (str ''1.5'') = 3" "length (str ''2'') = 1" by (simp_all add: str_def)
  show ?thesis
    by (simp add: a b d l formSchema_def formSchema_issues_def date_schema_def previous_schema_def
        current_schema_def cross_field_def isNaN_def form_errors_def error_at_def)
qed


section \<open>Properties of the sort\<close>

lemma mset_sort_insert: "mset (sort_insert c x ys) = add_mset x (mset ys)"
  by (induction ys) simp_all

lemma set_sort_insert: "set (sort_insert c x ys) = insert x (set ys)"
  by (induction ys) auto

lemma sorted_sort_insert:
  assumes "\<And>y. y \<in> set ys \<Longrightarrow> js_lt (Num 0) (SortCompare c y x) = (k y < k x)"
    and "sorted_wrt (\<lambda>a b. k a \<le> k b) ys"
  shows "sorted_wrt (\<lambda>a b. (k a :: real) \<le> k b) (sort_insert c x ys)"
  using assms
proof (induction ys)
  case Nil
  then show ?case by simp
next
  case (Cons y ys)
  show ?case
  proof (cases "k y < k x")
    case True
    then have step: "js_lt (Num 0) (SortCompare c y x)"
      using Cons.prems(1) [of y] by simp
    have "sorted_wrt (\<lambda>a b. k a \<le> k b) (sort_insert c x ys)"
      using Cons.IH Cons.prems by simp
    moreover have "\<forall>z \<in> set (sort_insert c x ys). k y \<le> k z"
      using True Cons.prems(2) by (auto simp: set_sort_insert)
    ultimately show ?thesis by (simp add: step)
  next
    case False
    then have step: "\<not> js_lt (Num 0) (SortCompare c y x)"
      using Cons.prems(1) [of y] by simp
    have "\<forall>z \<in> set (y # ys). k x \<le> k z"
      using False Cons.prems(2) by fastforce
    then show ?thesis using Cons.prems(2) by (simp add: step)
  qed
qed

lemma stable_sort_insert:
  assumes "\<And>y. y \<in> set ys \<Longrightarrow> js_lt (Num 0) (SortCompare c y x) = (k y < k x)"
  shows "filter (\<lambda>r. (k r :: real) = v) (sort_insert c x ys)
       = (if k x = v then [x] else []) @ filter (\<lambda>r. k r = v) ys"
  using assms
proof (induction ys)
  case Nil
  then show ?case by simp
next
  case (Cons y ys)
  have IH: "filter (\<lambda>r. k r = v) (sort_insert c x ys)
       = (if k x = v then [x] else []) @ filter (\<lambda>r. k r = v) ys"
    using Cons.IH Cons.prems by simp
  show ?case
  proof (cases "k y < k x")
    case True
    then have step: "js_lt (Num 0) (SortCompare c y x)"
      using Cons.prems [of y] by simp
    show ?thesis using True by (auto simp: step IH)
  next
    case False
    then have step: "\<not> js_lt (Num 0) (SortCompare c y x)"
      using Cons.prems [of y] by simp
    show ?thesis by (simp add: step)
  qed
qed

lemma foldl_sort_insert:
  assumes "\<And>x y. x \<in> set acc \<union> set xs \<Longrightarrow> y \<in> set acc \<union> set xs \<Longrightarrow>
             js_lt (Num 0) (SortCompare c y x) = (k y < k x)"
    and "sorted_wrt (\<lambda>a b. (k a :: real) \<le> k b) acc"
  shows "sorted_wrt (\<lambda>a b. k a \<le> k b) (foldl (\<lambda>acc x. sort_insert c x acc) acc xs)
       \<and> mset (foldl (\<lambda>acc x. sort_insert c x acc) acc xs) = mset acc + mset xs
       \<and> (\<forall>v. filter (\<lambda>r. k r = v) (rev (foldl (\<lambda>acc x. sort_insert c x acc) acc xs))
              = filter (\<lambda>r. k r = v) (rev acc) @ filter (\<lambda>r. k r = v) xs)"
  using assms
proof (induction xs arbitrary: acc)
  case Nil
  then show ?case by simp
next
  case (Cons x xs)
  have cons: "\<And>y. y \<in> set acc \<Longrightarrow> js_lt (Num 0) (SortCompare c y x) = (k y < k x)"
    using Cons.prems(1) by simp
  have sorted': "sorted_wrt (\<lambda>a b. k a \<le> k b) (sort_insert c x acc)"
    using sorted_sort_insert [of acc c x k] cons Cons.prems(2) by blast
  have sets: "set (sort_insert c x acc) \<union> set xs = set acc \<union> set (x # xs)"
    by (auto simp: set_sort_insert)
  have IH: "sorted_wrt (\<lambda>a b. k a \<le> k b) (foldl (\<lambda>acc x. sort_insert c x acc) (sort_insert c x acc) xs)
       \<and> mset (foldl (\<lambda>acc x. sort_insert c x acc) (sort_insert c x acc) xs)
           = mset (sort_insert c x acc) + mset xs
       \<and> (\<forall>v. filter (\<lambda>r. k r = v) (rev (foldl (\<lambda>acc x. sort_insert c x acc) (sort_insert c x acc) xs))
              = filter (\<lambda>r. k r = v) (rev (sort_insert c x acc)) @ filter (\<lambda>r. k r = v) xs)"
  proof (rule Cons.IH)
    show "\<And>a b. a \<in> set (sort_insert c x acc) \<union> set xs \<Longrightarrow>
             b \<in> set (sort_insert c x acc) \<union> set xs \<Longrightarrow>
             js_lt (Num 0) (SortCompare c b a) = (k b < k a)"
      using Cons.prems(1) unfolding sets by blast
    show "sorted_wrt (\<lambda>a b. k a \<le> k b) (sort_insert c x acc)" by (rule sorted')
  qed
  have st: "\<And>v. filter (\<lambda>r. k r = v) (rev (sort_insert c x acc))
        = filter (\<lambda>r. k r = v) (rev acc) @ (if k x = v then [x] else [])"
    using stable_sort_insert [of acc c x k] cons by (simp flip: rev_filter)
  show ?case using IH by (simp add: mset_sort_insert st)
qed

lemma Array_sort_consistent:
  assumes "\<And>x y. x \<in> set xs \<Longrightarrow> y \<in> set xs \<Longrightarrow>
             js_lt (Num 0) (SortCompare c y x) = ((k y :: real) < k x)"
  shows "sorted_wrt (\<lambda>a b. k b \<le> k a) (Array_sort c xs)"
    and "mset (Array_sort c xs) = mset xs"
    and "filter (\<lambda>r. k r = v) (Array_sort c xs) = filter (\<lambda>r. k r = v) xs"
proof -
  have *: "sorted_wrt (\<lambda>a b. k a \<le> k b) (foldl (\<lambda>acc x. sort_insert c x acc) [] xs)
       \<and> mset (foldl (\<lambda>acc x. sort_insert c x acc) [] xs) = mset [] + mset xs
       \<and> (\<forall>v. filter (\<lambda>r. k r = v) (rev (foldl (\<lambda>acc x. sort_insert c x acc) [] xs))
              = filter (\<lambda>r. k r = v) (rev []) @ filter (\<lambda>r. k r = v) xs)"
    by (rule foldl_sort_insert) (use assms in simp_all)
  show "sorted_wrt (\<lambda>a b. k b \<le> k a) (Array_sort c xs)"
    using * by (simp add: Array_sort_def sorted_wrt_rev)
  show "mset (Array_sort c xs) = mset xs"
    using * by (simp add: Array_sort_def)
  show "filter (\<lambda>r. k r = v) (Array_sort c xs) = filter (\<lambda>r. k r = v) xs"
    using * by (simp add: Array_sort_def)
qed


section \<open>Properties of the readings table\<close>

lemma by_date_consistent:
  assumes "getTime (reading_date x) = Num a" and "getTime (reading_date y) = Num b"
  shows "js_lt (Num 0) (SortCompare (by_date_descending getTime) y x) = (b < a)"
  using assms by (simp add: SortCompare_def by_date_descending_def isNaN_def)

lemma rendered_ReadingsTable:
  "rendered_readings (fst (ReadingsTable getTime arr h))
     = Array_sort (by_date_descending getTime) (h arr)"
proof (cases "h arr")
  case Nil
  then show ?thesis
    by (simp add: ReadingsTable_def rendered_readings_def Array_sort_def)
next
  case (Cons r rs)
  have "map row_reading (map render_row xs) = xs" for xs
    by (induction xs) (simp_all add: render_row_def)
  then show ?thesis using Cons
    by (simp add: ReadingsTable_def rendered_readings_def Let_def)
qed

lemma store_ReadingsTable:
  "snd (ReadingsTable getTime arr h) arr
     = Array_sort (by_date_descending getTime) (h arr)"
  by (cases "h arr") (simp_all add: ReadingsTable_def Let_def Array_sort_def)

lemma sort_three_dates:
  assumes "reading_date a = str ''2025-01-01''" and "reading_date b = str ''2025-03-01''"
    and "reading_date c = str ''2025-02-01''"
  shows "Array_sort (by_date_descending iso_date_time) [a, b, c] = [b, c, a]"
  using assms
  by (simp add: Array_sort_def SortCompare_def by_date_descending_def isNaN_def
      time_jan time_feb time_mar)

text \<open>
  Claim C3, as amended. For every list of readings whose dates all have a time value,
  the table renders the readings in descending order of that time value, comparing the
  dates as dates and not as strings, and renders each reading of the list once. Readings
  dated 2025-01-01, 2025-03-01 and 2025-02-01, in this order, are rendered in the order
  2025-03-01, 2025-02-01, 2025-01-01.
\<close>

theorem readings_rendered_by_date_descending:
  "((\<forall>r \<in> set (h arr). \<exists>t. getTime (reading_date r) = Num t) \<longrightarrow>
      sorted_wrt (\<lambda>a b. js_ge (getTime (reading_date a)) (getTime (reading_date b)))
        (rendered_readings (fst (ReadingsTable getTime arr h)))
      \<and> mset (rendered_readings (fst (ReadingsTable getTime arr h))) = mset (h arr))
   \<and> (reading_date a = str ''2025-01-01'' \<and> reading_date b = str ''2025-03-01''
        \<and> reading_date c = str ''2025-02-01'' \<and> h' arr' = [a, b, c] \<longrightarrow>
      rendered_readings (fst (ReadingsTable iso_date_time arr' h')) = [b, c, a])"
proof (intro conjI impI)
  assume finite: "\<forall>r \<in> set (h arr). \<exists>t. getTime (reading_date r) = Num t"
  define k where "k r = (case getTime (reading_date r) of Num t \<Rightarrow> t | _ \<Rightarrow> 0)" for r :: reading
  have key: "getTime (reading_date r) = Num (k r)" if "r \<in> set (h arr)" for r
    using finite that by (auto simp: k_def)
  have cons: "js_lt (Num 0) (SortCompare (by_date_descending getTime) y x) = (k y < k x)"
    if "x \<in> set (h arr)" and "y \<in> set (h arr)" for x y
    using by_date_consistent [OF key [OF that(1)] key [OF that(2)]] .
  let ?out = "Array_sort (by_date_descending getTime) (h arr)"
  have sorted: "sorted_wrt (\<lambda>a b. k b \<le> k a) ?out"
    and perm: "mset ?out = mset (h arr)"
    using Array_sort_consistent(1,2) [of "h arr" "by_date_descending getTime" k] cons
    by blast+
  have "set ?out = set (h arr)"
    using perm by (metis set_mset_mset)
  then have "sorted_wrt (\<lambda>a b. js_ge (getTime (reading_date a)) (getTime (reading_date b))) ?out"
    using sorted key by (auto intro!: sorted_wrt_mono_rel [OF _ sorted])
  then show "sorted_wrt (\<lambda>a b. js_ge (getTime (reading_date a)) (getTime (reading_date b)))
        (rendered_readings (fst (ReadingsTable getTime arr h)))"
    by (simp add: rendered_ReadingsTable)
  show "mset (rendered_readings (fst (ReadingsTable getTime arr h))) = mset (h arr)"
    using perm by (simp add: rendered_ReadingsTable)
next
  assume "reading_date a = str ''2025-01-01'' \<and> reading_date b = str ''2025-03-01''
        \<and> reading_date c = str ''2025-02-01'' \<and> h' arr' = [a, b, c]"
  then show "rendered_readings (fst (ReadingsTable iso_date_time arr' h')) = [b, c, a]"
    by (simp add: rendered_ReadingsTable sort_three_dates)
qed

theorem readings_rendered_by_date_descending_witness:
  "iso_date_time (reading_date reading_jan) = Num 1735689600000
   \<and> iso_date_time (reading_date reading_mar) = Num 1740787200000
   \<and> iso_date_time (reading_date reading_feb) = Num 1738368000000
   \<and> rendered_readings (fst (ReadingsTable iso_date_time 0 (\<lambda>a. [reading_jan, reading_mar, reading_feb])))
       = [reading_mar, reading_feb, reading_jan]
   \<and> sorted_wrt (\<lambda>a b. js_ge (iso_date_time (reading_date a)) (iso_date_time (reading_date b)))
        (rendered_readings
          (fst (ReadingsTable iso_date_time 0 (\<lambda>a. [reading_jan, reading_mar, reading_feb]))))"
proof -
  have dates: "reading_date reading_jan = str ''2025-01-01''"
    "reading_date reading_mar = str ''2025-03-01''"
    "reading_date reading_feb = str ''2025-02-01''"
    by (simp_all add: reading_jan_def reading_mar_def reading_feb_def)
  have times: "\<forall>r \<in> set [reading_jan, reading_mar, reading_feb].
      \<exists>t. iso_date_time (reading_date r) = Num t"
    by (simp add: dates time_jan time_feb time_mar)
  show ?thesis
    using readings_rendered_by_date_descending
      [of "\<lambda>a. [reading_jan, reading_mar, reading_feb]" 0 iso_date_time
          reading_jan reading_mar reading_feb "\<lambda>a. [reading_jan, reading_mar, reading_feb]" 0]
      times dates
    by (simp add: time_jan time_feb time_mar)
qed

text \<open>
  Claim C3, as stated, is about every list of readings. The date \<open>2025-13-01\<close> matches
  the pattern of the entry form and has no time value. A list that holds a reading with
  this date between the reading of January and the reading of March is rendered as it
  stands: every comparison with the middle reading is NaN and counts as a tie, and the
  reading of January stays above the reading of March.
\<close>

theorem unparseable_date_breaks_order:
  "iso_date_time (reading_date reading_bad) = NaN
   \<and> rendered_readings
        (fst (ReadingsTable iso_date_time 0 (\<lambda>a. [reading_jan, reading_bad, reading_mar])))
       = [reading_jan, reading_bad, reading_mar]
   \<and> js_lt (iso_date_time (reading_date reading_jan)) (iso_date_time (reading_date reading_mar))
   \<and> \<not> sorted_wrt
          (\<lambda>a b. js_ge (iso_date_time (reading_date a)) (iso_date_time (reading_date b)))
          (rendered_readings
            (fst (ReadingsTable iso_date_time 0 (\<lambda>a. [reading_jan, reading_bad, reading_mar]))))"
proof -
  have dates: "reading_date reading_jan = str ''2025-01-01''"
    "reading_date reading_bad = str ''2025-13-01''"
    "reading_date reading_mar = str ''2025-03-01''"
    by (simp_all add: reading_jan_def reading_bad_def reading_mar_def)
  have sorted: "Array_sort (by_date_descending iso_date_time)
      [reading_jan, reading_bad, reading_mar] = [reading_jan, reading_bad, reading_mar]"
    by (simp add: Array_sort_def SortCompare_def by_date_descending_def isNaN_def
        dates time_jan time_bad time_mar)
  show ?thesis
    by (simp add: rendered_ReadingsTable sorted dates time_jan time_bad time_mar)
qed





text \<open>
  Claim C6. The claim requires the array of the caller to be unchanged by rendering. The
  table sorts that array in place: an array that holds the reading of January before the
  reading of March holds them in the opposite order after the table has been rendered.
\<close>

theorem table_sorts_callers_array:
  "snd (ReadingsTable iso_date_time 0 (\<lambda>a. [reading_jan, reading_mar])) 0
     = [reading_mar, reading_jan]
   \<and> [reading_mar, reading_jan] \<noteq> [reading_jan, reading_mar]"
proof -
  have dates: "reading_date reading_jan = str ''2025-01-01''"
    "reading_date reading_mar = str ''2025-03-01''"
    by (simp_all add: reading_jan_def reading_mar_def)
  have "Array_sort (by_date_descending iso_date_time) [reading_jan, reading_mar]
      = [reading_mar, reading_jan]"
    by (simp add: Array_sort_def SortCompare_def by_date_descending_def isNaN_def
        dates time_jan time_mar)
  moreover have "reading_mar \<noteq> reading_jan"
    by (simp add: reading_jan_def reading_mar_def)
  ultimately show ?thesis
    by (simp add: store_ReadingsTable)
qed


section \<open>Properties of the pages\<close>

lemma length_filter_distinct_key:
  assumes "distinct (map f xs)" and "k \<in> f ` set xs"
  shows "Suc (length (filter (\<lambda>x. f x \<noteq> k) xs)) = length xs"
  using assms
proof (induction xs)
  case Nil
  then show ?case by simp
next
  case (Cons x xs)
  show ?case
  proof (cases "f x = k")
    case True
    then have "k \<notin> f ` set xs" using Cons.prems(1) by auto
    then have "filter (\<lambda>x. f x \<noteq> k) xs = xs" by (auto simp: filter_id_conv)
    then show ?thesis using True by simp
  next
    case False
    then show ?thesis using Cons by auto
  qed
qed

lemma handleDeleteProfile_try_ok:
  "\<not> missing token \<Longrightarrow> ok r \<Longrightarrow>
   handleDeleteProfile_try profileId (Resolved token) (Resolved r) = Inr ()"
  by (simp add: handleDeleteProfile_try_def)

lemma handleDeleteProfile_try_failed:
  "\<not> ok r \<Longrightarrow> \<exists>e. handleDeleteProfile_try profileId getToken (Resolved r) = Inl e"
  by (simp add: handleDeleteProfile_try_def split: awaited.splits)

lemma handleDeleteReading_try_ok:
  "\<not> missing token \<Longrightarrow> ok r \<Longrightarrow>
   handleDeleteReading_try readingId (Resolved token) (Resolved r) = Inr ()"
  by (simp add: handleDeleteReading_try_def)

lemma handleDeleteReading_try_failed:
  "\<not> ok r \<Longrightarrow> \<exists>e. handleDeleteReading_try readingId getToken (Resolved r) = Inl e"
  by (simp add: handleDeleteReading_try_def split: awaited.splits)

text \<open>
  Claim C7. Deleting a profile on the dashboard, or a reading on the meter details page:
  after a successful response the list is the old list without the items of the given id,
  the other items in their order, which is one item less when the ids of the list are
  distinct and the id is in it. After a response that is not a success the list is
  unchanged and the error is set, to the detail of the response when it has one and
  otherwise to a message with the status. What the handler does before the response
  arrives leaves the list unchanged.
\<close>

theorem delete_after_confirmation:
  "(\<not> missing token \<and> ok r \<longrightarrow>
      profiles (handleDeleteProfile profileId (Resolved token) (Resolved r) st)
        = filter (\<lambda>p. profile_id p \<noteq> profileId) (profiles st)
      \<and> (distinct (map profile_id (profiles st)) \<and> profileId \<in> profile_id ` set (profiles st) \<longrightarrow>
           Suc (length (profiles (handleDeleteProfile profileId (Resolved token) (Resolved r) st)))
             = length (profiles st)))
   \<and> (\<not> ok r \<longrightarrow>
      profiles (handleDeleteProfile profileId getToken (Resolved r) st) = profiles st
      \<and> error (handleDeleteProfile profileId getToken (Resolved r) st) \<noteq> None)
   \<and> (\<not> missing token \<and> \<not> ok r \<and> json r = Resolved errorData \<longrightarrow>
      error (handleDeleteProfile profileId (Resolved token) (Resolved r) st)
        = Some (detail_or errorData (str ''Failed to delete profile: '' @ show_nat (status r))))
   \<and> profiles (handleDeleteProfile_start st) = profiles st
   \<and> (\<not> signed_out isSignedIn userId \<and> \<not> missing token \<and> ok r \<longrightarrow>
      readings (handleDeleteReading isSignedIn userId readingId (Resolved token) (Resolved r) mt)
        = filter (\<lambda>x. reading_id x \<noteq> readingId) (readings mt)
      \<and> (distinct (map reading_id (readings mt)) \<and> readingId \<in> reading_id ` set (readings mt) \<longrightarrow>
           Suc (length (readings
             (handleDeleteReading isSignedIn userId readingId (Resolved token) (Resolved r) mt)))
             = length (readings mt)))
   \<and> (\<not> ok r \<longrightarrow>
      readings (handleDeleteReading isSignedIn userId readingId getToken (Resolved r) mt)
        = readings mt
      \<and> error (handleDeleteReading isSignedIn userId readingId getToken (Resolved r) mt) \<noteq> None)
   \<and> (\<not> signed_out isSignedIn userId \<and> \<not> missing token \<and> \<not> ok r
        \<and> json r = Resolved errorData \<longrightarrow>
      error (handleDeleteReading isSignedIn userId readingId (Resolved token) (Resolved r) mt)
        = Some (detail_or errorData (str ''Failed to delete reading: '' @ show_nat (status r))))
   \<and> readings (handleDeleteReading_start isSignedIn userId mt) = readings mt"
proof (intro conjI impI)
  assume a: "\<not> missing token \<and> ok r"
  then show p: "profiles (handleDeleteProfile profileId (Resolved token) (Resolved r) st)
        = filter (\<lambda>p. profile_id p \<noteq> profileId) (profiles st)"
    by (simp add: handleDeleteProfile_def handleDeleteProfile_try_ok
        handleDeleteProfile_finish_def handleDeleteProfile_start_def)
  assume "distinct (map profile_id (profiles st)) \<and> profileId \<in> profile_id ` set (profiles st)"
  then show "Suc (length (profiles (handleDeleteProfile profileId (Resolved token) (Resolved r) st)))
             = length (profiles st)"
    by (simp add: p length_filter_distinct_key)
next
  assume "\<not> ok r"
  then obtain e where "handleDeleteProfile_try profileId getToken (Resolved r) = Inl e"
    using handleDeleteProfile_try_failed by blast
  then show "profiles (handleDeleteProfile profileId getToken (Resolved r) st) = profiles st"
    and "error (handleDeleteProfile profileId getToken (Resolved r) st) \<noteq> None"
    by (simp_all add: handleDeleteProfile_def handleDeleteProfile_finish_def
        handleDeleteProfile_start_def)
next
  assume "\<not> missing token \<and> \<not> ok r \<and> json r = Resolved errorData"
  then show "error (handleDeleteProfile profileId (Resolved token) (Resolved r) st)
        = Some (detail_or errorData (str ''Failed to delete profile: '' @ show_nat (status r)))"
    by (simp add: handleDeleteProfile_def handleDeleteProfile_finish_def
        handleDeleteProfile_try_def caught_message_def)
next
  show "profiles (handleDeleteProfile_start st) = profiles st"
    by (simp add: handleDeleteProfile_start_def)
next
  assume a: "\<not> signed_out isSignedIn userId \<and> \<not> missing token \<and> ok r"
  then show p: "readings (handleDeleteReading isSignedIn userId readingId (Resolved token) (Resolved r) mt)
        = filter (\<lambda>x. reading_id x \<noteq> readingId) (readings mt)"
    by (simp add: handleDeleteReading_def handleDeleteReading_try_ok
        handleDeleteReading_finish_def handleDeleteReading_start_def)
  assume "distinct (map reading_id (readings mt)) \<and> readingId \<in> reading_id ` set (readings mt)"
  then show "Suc (length (readings
             (handleDeleteReading isSignedIn userId readingId (Resolved token) (Resolved r) mt)))
             = length (readings mt)"
    by (simp add: p length_filter_distinct_key)
next
  assume "\<not> ok r"
  then obtain e where "handleDeleteReading_try readingId getToken (Resolved r) = Inl e"
    using handleDeleteReading_try_failed by blast
  then show "readings (handleDeleteReading isSignedIn userId readingId getToken (Resolved r) mt)
        = readings mt"
    and "error (handleDeleteReading isSignedIn userId readingId getToken (Resolved r) mt) \<noteq> None"
    by (simp_all add: handleDeleteReading_def handleDeleteReading_finish_def
        handleDeleteReading_start_def)
next
  assume "\<not> signed_out isSignedIn userId \<and> \<not> missing token \<and> \<not> ok r
        \<and> json r = Resolved errorData"
  then show "error (handleDeleteReading isSignedIn userId readingId (Resolved token) (Resolved r) mt)
        = Some (detail_or errorData (str ''Failed to delete reading: '' @ show_nat (status r)))"
    by (simp add: handleDeleteReading_def handleDeleteReading_finish_def
        handleDeleteReading_try_def caught_message_def)
next
  show "readings (handleDeleteReading_start isSignedIn userId mt) = readings mt"
    by (simp add: handleDeleteReading_start_def)
qed

theorem delete_after_confirmation_witness:
  "profiles (handleDeleteProfile 7 (Resolved (Some (str ''token'')))
       (Resolved (Response 204 (Resolved NoDetail))) dashboard_example)
     = [profile_example 8]
   \<and> profiles (handleDeleteProfile 7 (Resolved (Some (str ''token'')))
       (Resolved (Response 500 (Resolved (Detail (str ''Database is down''))))) dashboard_example)
     = [profile_example 7, profile_example 8]
   \<and> error (handleDeleteProfile 7 (Resolved (Some (str ''token'')))
       (Resolved (Response 500 (Resolved (Detail (str ''Database is down''))))) dashboard_example)
     = Some (str ''Database is down'')
   \<and> readings (handleDeleteReading (Some True) (Some (str ''user_1'')) 2
       (Resolved (Some (str ''token''))) (Resolved (Response 204 (Resolved NoDetail))) meter_example)
     = [reading_jan, reading_feb]
   \<and> readings (handleDeleteReading (Some True) (Some (str ''user_1'')) 2
       (Resolved (Some (str ''token''))) (Resolved (Response 404 (Resolved NoDetail))) meter_example)
     = [reading_jan, reading_mar, reading_feb]
   \<and> error (handleDeleteReading (Some True) (Some (str ''user_1'')) 2
       (Resolved (Some (str ''token''))) (Resolved (Response 404 (Resolved NoDetail))) meter_example)
     = Some (str ''Failed to delete reading: 404'')"
proof -
  have t: "\<not> missing (Some (str ''token''))" by (simp add: missing_def str_def)
  have u: "\<not> signed_out (Some True) (Some (str ''user_1''))"
    by (simp add: signed_out_def missing_def str_def)
  have o: "ok (Response 204 (Resolved NoDetail))"
    "\<not> ok (Response 500 (Resolved (Detail (str ''Database is down''))))"
    "\<not> ok (Response 404 (Resolved NoDetail))"
    by (simp_all add: ok_def)
  have d: "detail_or (Detail (str ''Database is down'')) x = str ''Database is down''"
    "detail_or NoDetail y = y" for x y
    by (simp_all add: detail_or_def str_def)
  have s: "str ''Failed to delete reading: '' @ show_nat 404 = str ''Failed to delete reading: 404''"
    by (simp add: show_nat.simps str_def)
  have ps: "profiles dashboard_example = [profile_example 7, profile_example 8]"
    and rs: "readings meter_example = [reading_jan, reading_mar, reading_feb]"
    by (simp_all add: dashboard_example_def meter_example_def)
  have ids: "profile_id (profile_example i) = i" "reading_id reading_jan = 1"
    "reading_id reading_mar = 2" "reading_id reading_feb = 3" for i
    by (simp_all add: profile_example_def reading_jan_def reading_mar_def reading_feb_def)
  show ?thesis
    using delete_after_confirmation
        [of "Some (str ''token'')" "Response 204 (Resolved NoDetail)" 7 dashboard_example
            "Resolved (Some (str ''token''))" NoDetail "Some True" "Some (str ''user_1'')" 2
            meter_example]
      delete_after_confirmation
        [of "Some (str ''token'')" "Response 500 (Resolved (Detail (str ''Database is down'')))"
            7 dashboard_example "Resolved (Some (str ''token''))" "Detail (str ''Database is down'')"
            "Some True" "Some (str ''user_1'')" 2 meter_example]
      delete_after_confirmation
        [of "Some (str ''token'')" "Response 404 (Resolved NoDetail)" 7 dashboard_example
            "Resolved (Some (str ''token''))" NoDetail "Some True" "Some (str ''user_1'')" 2
            meter_example]
      t u o
    by (simp add: d s ps rs ids)
qed

text \<open>
  Claim C8. When the request for the profiles is answered with a status that is not a
  success, the error of the dashboard is the session-expired message for the status 401
  and the generic message for any other status; the two messages differ, 401 is never a
  success, and the list of profiles is unchanged.
\<close>

theorem session_expired_message:
  "(\<not> missing token \<and> \<not> ok r \<longrightarrow>
      error (fst (fetchProfiles (Some True) (Resolved token) (Resolved r) st))
        = Some (if status r = 401 then str ''Session expired, please sign in again''
                else str ''Failed to fetch profiles'')
      \<and> profiles (fst (fetchProfiles (Some True) (Resolved token) (Resolved r) st)) = profiles st)
   \<and> (status r = 401 \<longrightarrow> \<not> ok r)
   \<and> str ''Session expired, please sign in again'' \<noteq> str ''Failed to fetch profiles''"
  by (simp add: fetchProfiles_def fetchProfiles_try_def caught_message_def ok_def str_def)

theorem session_expired_message_witness:
  "error (fst (fetchProfiles (Some True) (Resolved (Some (str ''token'')))
       (Resolved (Response 401 (Resolved (NotArray Null)))) dashboard_example))
     = Some (str ''Session expired, please sign in again'')
   \<and> error (fst (fetchProfiles (Some True) (Resolved (Some (str ''token'')))
       (Resolved (Response 500 (Resolved (NotArray Null)))) dashboard_example))
     = Some (str ''Failed to fetch profiles'')"
proof -
  have t: "\<not> missing (Some (str ''token''))" by (simp add: missing_def str_def)
  have a: "\<not> ok (Response 401 (Resolved (NotArray Null)))"
    and b: "\<not> ok (Response 500 (Resolved (NotArray Null)))"
    by (simp_all add: ok_def)
  show ?thesis
    using session_expired_message
        [of "Some (str ''token'')" "Response 401 (Resolved (NotArray Null))" dashboard_example]
      session_expired_message
        [of "Some (str ''token'')" "Response 500 (Resolved (NotArray Null))" dashboard_example]
      t a b
    by simp
qed

text \<open>
  Claim C9. The claim requires an input that parses to a negative number, or to no
  number, to be dropped without a submission, and every other input to submit the integer
  parsed. The handler reads the input with \<open>parseInt\<close>, which stops at the first
  character that is not a digit. The input \<open>-0.9\<close> is read as zero, passes the test for
  a negative number and is submitted as 0; the input \<open>12abc\<close> is submitted as 12; and a
  numeral of 310 digits is read as infinity, passes both tests, and the request carries
  \<open>null\<close>.
\<close>

theorem lenient_baseline_submitted:
  "parseInt (str ''-0.9'') = Num 0
   \<and> handleSaveInitialReading (str ''-0.9'') = [Num 0]
   \<and> snd (save_initial_reading (str ''-0.9'') (Resolved (Some (str ''token'')))
        (Resolved (Response 200 (Resolved (profile_example 7)))) (Resolved NoDetail) meter_example)
       = [PATCH_initial_reading (Text_number 0)]
   \<and> handleSaveInitialReading (str ''12abc'') = [Num 12]
   \<and> handleSaveInitialReading (replicate 310 57) = [PosInf]
   \<and> snd (save_initial_reading (replicate 310 57) (Resolved (Some (str ''token'')))
        (Resolved (Response 200 (Resolved (profile_example 7)))) (Resolved NoDetail) meter_example)
       = [PATCH_initial_reading Text_null]"
proof -
  have t: "\<not> missing (Some (str ''token''))" by (simp add: missing_def str_def)
  have p: "profile meter_example \<noteq> None" by (simp add: meter_example_def)
  have a: "parseInt (str ''-0.9'') = Num 0" by (simp add: parseInt_eval)
  have b: "parseInt (str ''12abc'') = Num 12" by (simp add: parseInt_eval)
  have c: "parseInt (replicate 310 57) = PosInf"
    by (rule parseInt_310_nines)
  have e: "str ''-0.9'' \<noteq> []" "str ''12abc'' \<noteq> []" "replicate 310 57 \<noteq> ([] :: nat list)"
    by (simp_all add: str_def)
  have sa: "handleSaveInitialReading (str ''-0.9'') = [Num 0]"
    and sb: "handleSaveInitialReading (str ''12abc'') = [Num 12]"
    and sc: "handleSaveInitialReading (replicate 310 57) = [PosInf]"
    using e by (simp_all add: handleSaveInitialReading_def a b c isNaN_def)
  show ?thesis
    using t p
    by (simp add: a sa sb sc save_initial_reading_def handleUpdateInitialReading_def
        JSON_stringify_def)
qed

text \<open>
  Claim C10. When the request for the profiles succeeds and the JSON body is not an
  array, the list of profiles becomes the empty list, the error is cleared and the page
  stops loading.
\<close>

theorem non_array_body_gives_empty_list:
  "\<not> missing token \<and> ok r \<and> json r = Resolved (NotArray v) \<longrightarrow>
     profiles (fst (fetchProfiles (Some True) (Resolved token) (Resolved r) st)) = []
     \<and> error (fst (fetchProfiles (Some True) (Resolved token) (Resolved r) st)) = None
     \<and> isLoading (fst (fetchProfiles (Some True) (Resolved token) (Resolved r) st)) = False"
  by (simp add: fetchProfiles_def fetchProfiles_try_def)

theorem non_array_body_gives_empty_list_witness:
  "profiles dashboard_example \<noteq> []
   \<and> profiles (fst (fetchProfiles (Some True) (Resolved (Some (str ''token'')))
       (Resolved (Response 200 (Resolved (NotArray (Object []))))) dashboard_example)) = []"
proof -
  have t: "\<not> missing (Some (str ''token''))" by (simp add: missing_def str_def)
  have a: "ok (Response 200 (Resolved (NotArray (Object []))))" by (simp add: ok_def)
  show ?thesis
    using non_array_body_gives_empty_list
        [of "Some (str ''token'')" "Response 200 (Resolved (NotArray (Object [])))"
            "Object []" dashboard_example] t a
    by (simp add: dashboard_example_def)
qed

end
